theory Spec2Isabelle
  imports Complex_Main
begin

section \<open>Values and exceptions of the Python program\<close>

text \<open>
  The handlers of \<^verbatim>\<open>lambda/index.py\<close> work on what \<^verbatim>\<open>json.loads\<close> returns
  and on the event dictionary that the Lambda runtime decodes from JSON. Such a value is
  \<^verbatim>\<open>None\<close>, a bool, an int, a float, a str, a list or a dict with str keys.
  A dict is an association list read with \<open>map_of\<close>; a float is carried as the
  number it denotes (the program never computes with one).
\<close>

datatype json =
    JNull
  | JBool bool
  | JInt int
  | JFloat real
  | JStr string
  | JArr "json list"
  | JObj "(string \<times> json) list"

text \<open>
  Every \<^verbatim>\<open>raise\<close> of the program and of the interpreter is a value. The
  payload of \<open>KeyError\<close> is the \<^verbatim>\<open>repr\<close> of the missing key, the payload of
  the others is the message. \<open>LibraryError\<close> is any exception that comes out of
  \<^verbatim>\<open>json.loads\<close>, \<^verbatim>\<open>boto3.client\<close>, \<^verbatim>\<open>invoke_model\<close>
  or \<^verbatim>\<open>urlopen\<close>, with its \<^verbatim>\<open>str()\<close>.
\<close>

datatype error =
    KeyError string
  | TypeError string
  | AttributeError string
  | IndexError string
  | Exception string
  | LibraryError string

text \<open>\<^verbatim>\<open>str(error)\<close>, as the \<^verbatim>\<open>except\<close> blocks call it.\<close>

fun str_error :: "error \<Rightarrow> string" where
  "str_error (KeyError k) = k"
| "str_error (TypeError m) = m"
| "str_error (AttributeError m) = m"
| "str_error (IndexError m) = m"
| "str_error (Exception m) = m"
| "str_error (LibraryError m) = m"

definition quoted :: "string \<Rightarrow> string" where
  "quoted s = CHR 0x27 # s @ [CHR 0x27]"

fun type_name :: "json \<Rightarrow> string" where
  "type_name JNull = ''NoneType''"
| "type_name (JBool _) = ''bool''"
| "type_name (JInt _) = ''int''"
| "type_name (JFloat _) = ''float''"
| "type_name (JStr _) = ''str''"
| "type_name (JArr _) = ''list''"
| "type_name (JObj _) = ''dict''"

text \<open>\<^verbatim>\<open>x[k]\<close> with a str key: only a dict that has the key answers.\<close>

fun getitem :: "json \<Rightarrow> string \<Rightarrow> error + json" where
  "getitem (JObj kvs) k =
     (case map_of kvs k of
        None \<Rightarrow> Inl (KeyError (quoted k))
      | Some v \<Rightarrow> Inr v)"
| "getitem (JStr s) k = Inl (TypeError ''string indices must be integers'')"
| "getitem (JArr xs) k = Inl (TypeError ''list indices must be integers or slices, not str'')"
| "getitem x k = Inl (TypeError (quoted (type_name x) @ '' object is not subscriptable''))"

text \<open>\<^verbatim>\<open>x[0]\<close>: the first element of a list or the first character of a str.\<close>

fun getitem0 :: "json \<Rightarrow> error + json" where
  "getitem0 (JArr []) = Inl (IndexError ''list index out of range'')"
| "getitem0 (JArr (x # xs)) = Inr x"
| "getitem0 (JStr []) = Inl (IndexError ''string index out of range'')"
| "getitem0 (JStr (c # cs)) = Inr (JStr [c])"
| "getitem0 (JObj kvs) = Inl (KeyError ''0'')"
| "getitem0 x = Inl (TypeError (quoted (type_name x) @ '' object is not subscriptable''))"

text \<open>\<^verbatim>\<open>x.get(k, default)\<close>: a method of dict only.\<close>

fun get_default :: "json \<Rightarrow> string \<Rightarrow> json \<Rightarrow> error + json" where
  "get_default (JObj kvs) k d =
     (case map_of kvs k of None \<Rightarrow> Inr d | Some v \<Rightarrow> Inr v)"
| "get_default x k d =
     Inl (AttributeError (quoted (type_name x) @ '' object has no attribute '' @ quoted ''get''))"

text \<open>\<^verbatim>\<open>x.get(k)\<close> is \<^verbatim>\<open>x.get(k, None)\<close>.\<close>

definition get :: "json \<Rightarrow> string \<Rightarrow> error + json" where
  "get x k = get_default x k JNull"

text \<open>Truth value of a value in a condition.\<close>

fun truthy :: "json \<Rightarrow> bool" where
  "truthy JNull = False"
| "truthy (JBool b) = b"
| "truthy (JInt n) = (n \<noteq> 0)"
| "truthy (JFloat r) = (r \<noteq> 0)"
| "truthy (JStr s) = (s \<noteq> [])"
| "truthy (JArr xs) = (xs \<noteq> [])"
| "truthy (JObj kvs) = (kvs \<noteq> [])"

fun starts_with :: "string \<Rightarrow> string \<Rightarrow> bool" where
  "starts_with [] s = True"
| "starts_with (p # ps) [] = False"
| "starts_with (p # ps) (c # cs) = (p = c \<and> starts_with ps cs)"

fun substring_of :: "string \<Rightarrow> string \<Rightarrow> bool" where
  "substring_of k [] = (k = [])"
| "substring_of k (c # cs) = (starts_with k (c # cs) \<or> substring_of k cs)"

text \<open>
  \<^verbatim>\<open>k in x\<close> with a str \<open>k\<close>: a key of a dict, an element of a list, a
  substring of a str; anything else is not iterable.
\<close>

fun contains :: "string \<Rightarrow> json \<Rightarrow> error + bool" where
  "contains k (JObj kvs) = Inr (map_of kvs k \<noteq> None)"
| "contains k (JArr xs) = Inr (List.member xs (JStr k))"
| "contains k (JStr s) = Inr (substring_of k s)"
| "contains k x =
     Inl (TypeError (''argument of type '' @ quoted (type_name x) @ '' is not iterable''))"

section \<open>Region extraction\<close>

text \<open>
  \<^verbatim>\<open>re.search('arn:aws:lambda:([^:]+):', arn)\<close>: at the leftmost position where
  the literal \<^verbatim>\<open>arn:aws:lambda:\<close> is followed by one or more characters other than a
  colon and then a colon, group 1 is that run of characters. The run is greedy, and a
  shorter run is followed by a character that is not a colon, so one attempt per
  position decides.
\<close>

fun strip_prefix :: "string \<Rightarrow> string \<Rightarrow> string option" where
  "strip_prefix [] s = Some s"
| "strip_prefix (p # ps) [] = None"
| "strip_prefix (p # ps) (c # cs) = (if p = c then strip_prefix ps cs else None)"

definition match_here :: "string \<Rightarrow> string option" where
  "match_here s =
     (case strip_prefix ''arn:aws:lambda:'' s of
        None \<Rightarrow> None
      | Some rest \<Rightarrow>
          (let region = takeWhile (\<lambda>c. c \<noteq> CHR '':'') rest;
               after = dropWhile (\<lambda>c. c \<noteq> CHR '':'') rest
           in if region \<noteq> [] \<and> after \<noteq> [] then Some region else None))"

fun re_search :: "string \<Rightarrow> string option" where
  "re_search [] = match_here []"
| "re_search (c # cs) =
     (case match_here (c # cs) of
        Some region \<Rightarrow> Some region
      | None \<Rightarrow> re_search cs)"

definition extract_region_from_arn :: "string \<Rightarrow> string" where
  "extract_region_from_arn arn =
     (case re_search arn of
        Some region \<Rightarrow> region
      | None \<Rightarrow> ''us-east-1'')"

section \<open>The world around a handler\<close>

text \<open>
  What the handlers reach outside themselves is a parameter of the model: the two
  configuration strings read from the process environment when the module is loaded, the
  JSON codec, \<^verbatim>\<open>str()\<close> of a value inside an f-string, the construction of the
  Bedrock client, the client's \<^verbatim>\<open>invoke_model\<close> (its answer is what
  \<^verbatim>\<open>response['body'].read()\<close> returns) and \<^verbatim>\<open>urlopen\<close> (its answer is
  the decoded text of the reply). A call either raises or returns. The type \<open>'c\<close> is
  the type of client handles. What \<^verbatim>\<open>print\<close> writes is not modelled; the
  arguments of each \<^verbatim>\<open>print\<close> that can raise are.
\<close>

record http_request =
  req_url :: string
  req_data :: string
  req_headers :: "(string \<times> string) list"
  req_method :: string

record 'c invocation =
  inv_client :: 'c
  inv_modelId :: string
  inv_body :: string
  inv_contentType :: string

record 'c env =
  MODEL_ID :: string
  FASTAPI_URL :: string
  json_loads :: "string \<Rightarrow> error + json"
  json_dumps :: "json \<Rightarrow> string"
  format_value :: "json \<Rightarrow> string"
  boto3_client :: "string \<Rightarrow> string \<Rightarrow> error + 'c"
  invoke_model :: "'c \<Rightarrow> string \<Rightarrow> string \<Rightarrow> string \<Rightarrow> error + string"
  urlopen :: "http_request \<Rightarrow> error + string"

record lambda_context =
  invoked_function_arn :: string

record response =
  statusCode :: int
  headers :: "(string \<times> string) list"
  body :: string

text \<open>\<^verbatim>\<open>json.loads(x)\<close>: only a str goes to the decoder.\<close>

definition loads :: "'c env \<Rightarrow> json \<Rightarrow> error + json" where
  "loads env x =
     (case x of
        JStr s \<Rightarrow> json_loads env s
      | _ \<Rightarrow> Inl (TypeError (''the JSON object must be str, bytes or bytearray, not ''
                 @ type_name x)))"

text \<open>\<^verbatim>\<open>x.copy()\<close>: lists and dicts have the method.\<close>

definition py_copy :: "json \<Rightarrow> error + json" where
  "py_copy x =
     (case x of
        JArr xs \<Rightarrow> Inr (JArr xs)
      | JObj kvs \<Rightarrow> Inr (JObj kvs)
      | _ \<Rightarrow> Inl (AttributeError
                 (quoted (type_name x) @ '' object has no attribute '' @ quoted ''copy'')))"

text \<open>\<^verbatim>\<open>x.append(v)\<close>: a method of list only; the answer is the list after it.\<close>

definition py_append :: "json \<Rightarrow> json \<Rightarrow> error + json list" where
  "py_append x v =
     (case x of
        JArr xs \<Rightarrow> Inr (xs @ [v])
      | _ \<Rightarrow> Inl (AttributeError
                 (quoted (type_name x) @ '' object has no attribute '' @ quoted ''append'')))"

text \<open>\<^verbatim>\<open>x[k1][k2]...\<close>, from the left.\<close>

fun subscripts :: "json \<Rightarrow> string list \<Rightarrow> error + json" where
  "subscripts x [] = Inr x"
| "subscripts x (k # ks) =
     (case getitem x k of
        Inl e \<Rightarrow> Inl e
      | Inr v \<Rightarrow> subscripts v ks)"

text \<open>The dict literal \<^verbatim>\<open>{"role": r, "content": c}\<close>.\<close>

definition turn :: "string \<Rightarrow> json \<Rightarrow> json" where
  "turn r c = JObj [(''role'', JStr r), (''content'', c)]"


section \<open>Reading the request\<close>

text \<open>
  Lines 27-29 of \<^verbatim>\<open>lambda_fastapi_handler\<close> and lines 123-125 of
  \<^verbatim>\<open>lambda_handler\<close>, the same three statements: the answer is
  \<open>(message, conversation_history)\<close>.
\<close>

definition parse_request :: "'c env \<Rightarrow> json \<Rightarrow> error + (json \<times> json)" where
  "parse_request env event =
     (case getitem event ''body'' of
        Inl e \<Rightarrow> Inl e
      | Inr raw \<Rightarrow>
     (case loads env raw of
        Inl e \<Rightarrow> Inl e
      | Inr body' \<Rightarrow>
     (case getitem body' ''message'' of
        Inl e \<Rightarrow> Inl e
      | Inr message \<Rightarrow>
     (case get_default body' ''conversationHistory'' (JArr []) of
        Inl e \<Rightarrow> Inl e
      | Inr conversation_history \<Rightarrow> Inr (message, conversation_history)))))"

section \<open>The self-hosted path: \<^verbatim>\<open>lambda_fastapi_handler\<close>\<close>






section \<open>The hosted path: \<^verbatim>\<open>lambda_handler\<close>\<close>

text \<open>
  Lines 108-112: the module keeps one client in the global \<^verbatim>\<open>bedrock_client\<close>,
  here a \<open>'c option\<close> that goes in and comes out. The answer is the client to use
  or what \<^verbatim>\<open>boto3.client\<close> raised.
\<close>

definition acquire_client :: "'c env \<Rightarrow> 'c option \<Rightarrow> lambda_context \<Rightarrow> error + 'c" where
  "acquire_client env bedrock_client context =
     (case bedrock_client of
        Some c \<Rightarrow> Inr c
      | None \<Rightarrow>
          (let region = extract_region_from_arn (invoked_function_arn context)
           in boto3_client env ''bedrock-runtime'' region))"

text \<open>
  Lines 117-120: the claims of the authenticated user are read for a
  \<^verbatim>\<open>print\<close>; reading them can raise.
\<close>

definition authenticated_user :: "json \<Rightarrow> error + unit" where
  "authenticated_user event =
     (case contains ''requestContext'' event of
        Inl e \<Rightarrow> Inl e
      | Inr has_context \<Rightarrow>
          if \<not> has_context then Inr ()
          else
     (case getitem event ''requestContext'' of
        Inl e \<Rightarrow> Inl e
      | Inr request_context \<Rightarrow>
     (case contains ''authorizer'' request_context of
        Inl e \<Rightarrow> Inl e
      | Inr has_authorizer \<Rightarrow>
          if \<not> has_authorizer then Inr ()
          else
     (case subscripts event [''requestContext'', ''authorizer'', ''claims''] of
        Inl e \<Rightarrow> Inl e
      | Inr user_info \<Rightarrow>
     (case get user_info ''email'' of
        Inl e \<Rightarrow> Inl e
      | Inr email \<Rightarrow>
          if truthy email then Inr ()
          else
     (case get user_info ''cognito:username'' of
        Inl e \<Rightarrow> Inl e
      | Inr username \<Rightarrow> Inr ()))))))"

text \<open>
  Lines 141-152, the loop over \<^verbatim>\<open>messages\<close>: the first argument is
  \<^verbatim>\<open>bedrock_messages\<close> so far, the second the turns still to visit.
\<close>

fun bedrock_loop :: "json list \<Rightarrow> json list \<Rightarrow> error + json list" where
  "bedrock_loop bedrock_messages [] = Inr bedrock_messages"
| "bedrock_loop bedrock_messages (msg # rest) =
     (case getitem msg ''role'' of
        Inl e \<Rightarrow> Inl e
      | Inr role \<Rightarrow>
          if role = JStr ''user'' then
            (case getitem msg ''content'' of
               Inl e \<Rightarrow> Inl e
             | Inr content \<Rightarrow>
                 bedrock_loop
                   (bedrock_messages @
                     [JObj [(''role'', JStr ''user''),
                            (''content'', JArr [JObj [(''text'', content)]])]])
                   rest)
          else if role = JStr ''assistant'' then
            (case getitem msg ''content'' of
               Inl e \<Rightarrow> Inl e
             | Inr content \<Rightarrow>
                 bedrock_loop
                   (bedrock_messages @
                     [JObj [(''role'', JStr ''assistant''),
                            (''content'', JArr [JObj [(''text'', content)]])]])
                   rest)
          else bedrock_loop bedrock_messages rest)"

text \<open>Lines 155-163.\<close>

definition request_payload :: "json list \<Rightarrow> json" where
  "request_payload bedrock_messages =
     JObj [(''messages'', JArr bedrock_messages),
           (''inferenceConfig'', JObj
             [(''maxTokens'', JInt 512),
              (''stopSequences'', JArr []),
              (''temperature'', JFloat 0.7),
              (''topP'', JFloat 0.9)])]"

text \<open>
  Lines 123-172 up to the call: the answer is \<^verbatim>\<open>messages\<close> (the history
  with the user's turn) and the body handed to \<^verbatim>\<open>invoke_model\<close>.
\<close>

definition prepare_call :: "'c env \<Rightarrow> json \<Rightarrow> error + (json list \<times> string)" where
  "prepare_call env event =
     (case parse_request env event of
        Inl e \<Rightarrow> Inl e
      | Inr (message, conversation_history) \<Rightarrow>
     (case py_copy conversation_history of
        Inl e \<Rightarrow> Inl e
      | Inr copied \<Rightarrow>
     (case py_append copied (turn ''user'' message) of
        Inl e \<Rightarrow> Inl e
      | Inr messages \<Rightarrow>
     (case bedrock_loop [] messages of
        Inl e \<Rightarrow> Inl e
      | Inr bedrock_messages \<Rightarrow>
          Inr (messages, json_dumps env (request_payload bedrock_messages))))))"

text \<open>
  Lines 179-183: the check of the decoded reply, with the short-circuit of
  \<^verbatim>\<open>or\<close>, then the text of the first content element.
\<close>

definition assistant_response_of :: "json \<Rightarrow> error + json" where
  "assistant_response_of response_body =
     (case get response_body ''output'' of
        Inl e \<Rightarrow> Inl e
      | Inr output \<Rightarrow>
          if \<not> truthy output then Inl (Exception ''No response content from the model'')
          else
     (case subscripts response_body [''output''] of
        Inl e \<Rightarrow> Inl e
      | Inr output' \<Rightarrow>
     (case get output' ''message'' of
        Inl e \<Rightarrow> Inl e
      | Inr message \<Rightarrow>
          if \<not> truthy message then Inl (Exception ''No response content from the model'')
          else
     (case subscripts response_body [''output'', ''message''] of
        Inl e \<Rightarrow> Inl e
      | Inr message' \<Rightarrow>
     (case get message' ''content'' of
        Inl e \<Rightarrow> Inl e
      | Inr content \<Rightarrow>
          if \<not> truthy content then Inl (Exception ''No response content from the model'')
          else
     (case subscripts response_body [''output'', ''message'', ''content''] of
        Inl e \<Rightarrow> Inl e
      | Inr content' \<Rightarrow>
     (case getitem0 content' of
        Inl e \<Rightarrow> Inl e
      | Inr first \<Rightarrow> getitem first ''text'')))))))"

text \<open>Lines 175-205: from what the backend returned to the success response.\<close>

definition hosted_reply :: "'c env \<Rightarrow> json list \<Rightarrow> string \<Rightarrow> error + response" where
  "hosted_reply env messages raw =
     (case json_loads env raw of
        Inl e \<Rightarrow> Inl e
      | Inr response_body \<Rightarrow>
     (case assistant_response_of response_body of
        Inl e \<Rightarrow> Inl e
      | Inr assistant_response \<Rightarrow>
          Inr \<lparr>statusCode = 200,
               headers =
                 [(''Content-Type'', ''application/json''),
                  (''Access-Control-Allow-Origin'', ''*''),
                  (''Access-Control-Allow-Headers'',
                   ''Content-Type,X-Amz-Date,Authorization,X-Api-Key,X-Amz-Security-Token''),
                  (''Access-Control-Allow-Methods'', ''OPTIONS,POST'')],
               body = json_dumps env (JObj
                 [(''success'', JBool True),
                  (''response'', assistant_response),
                  (''conversationHistory'',
                   JArr (messages @ [turn ''assistant'' assistant_response]))])\<rparr>))"

text \<open>
  Lines 106-205, the body of the \<^verbatim>\<open>try\<close>: what it returns or raises, the
  global \<^verbatim>\<open>bedrock_client\<close> afterwards, and the calls of
  \<^verbatim>\<open>invoke_model\<close> it made.
\<close>

definition lambda_handler_try ::
  "'c env \<Rightarrow> 'c option \<Rightarrow> json \<Rightarrow> lambda_context
     \<Rightarrow> (error + response) \<times> 'c option \<times> 'c invocation list" where
  "lambda_handler_try env bedrock_client event context =
     (case acquire_client env bedrock_client context of
        Inl e \<Rightarrow> (Inl e, bedrock_client, [])
      | Inr c \<Rightarrow>
     (case authenticated_user event of
        Inl e \<Rightarrow> (Inl e, Some c, [])
      | Inr user_info \<Rightarrow>
     (case prepare_call env event of
        Inl e \<Rightarrow> (Inl e, Some c, [])
      | Inr (messages, payload) \<Rightarrow>
          ((case invoke_model env c (MODEL_ID env) payload ''application/json'' of
              Inl e \<Rightarrow> Inl e
            | Inr raw \<Rightarrow> hosted_reply env messages raw),
           Some c,
           [\<lparr>inv_client = c, inv_modelId = MODEL_ID env, inv_body = payload,
             inv_contentType = ''application/json''\<rparr>]))))"

record 'c hosted_outcome =
  h_response :: response
  h_client :: "'c option"
  h_calls :: "'c invocation list"

text \<open>Lines 105-222: the \<^verbatim>\<open>try\<close> and its \<^verbatim>\<open>except Exception\<close>.\<close>

definition lambda_handler ::
  "'c env \<Rightarrow> 'c option \<Rightarrow> json \<Rightarrow> lambda_context \<Rightarrow> 'c hosted_outcome" where
  "lambda_handler env bedrock_client event context =
     (case lambda_handler_try env bedrock_client event context of
        (Inr r, client, calls) \<Rightarrow> \<lparr>h_response = r, h_client = client, h_calls = calls\<rparr>
      | (Inl error, client, calls) \<Rightarrow>
          \<lparr>h_response =
             \<lparr>statusCode = 500,
              headers =
                [(''Content-Type'', ''application/json''),
                 (''Access-Control-Allow-Origin'', ''*''),
                 (''Access-Control-Allow-Headers'',
                  ''Content-Type,X-Amz-Date,Authorization,X-Api-Key,X-Amz-Security-Token''),
                 (''Access-Control-Allow-Methods'', ''OPTIONS,POST'')],
              body = json_dumps env (JObj
                [(''success'', JBool False),
                 (''error'', JStr (str_error error))])\<rparr>,
           h_client = client, h_calls = calls\<rparr>)"

section \<open>Notions of the specification\<close>

text \<open>
  The field \<open>k\<close> of a decoded value: present when the value is an object that has
  the key.
\<close>

definition field_of :: "json \<Rightarrow> string \<Rightarrow> json option" where
  "field_of x k = (case x of JObj kvs \<Rightarrow> map_of kvs k | _ \<Rightarrow> None)"

text \<open>
  The reply text of a decoded answer of the hosted backend, in the specification's words:
  the answer has an output, the output a message, the message a content list with at
  least one element, and the first element bears a text field.
\<close>

definition reply_text :: "json \<Rightarrow> json option" where
  "reply_text response_body =
     (case field_of response_body ''output'' of
        None \<Rightarrow> None
      | Some output \<Rightarrow>
     (case field_of output ''message'' of
        None \<Rightarrow> None
      | Some message \<Rightarrow>
     (case field_of message ''content'' of
        Some (JArr (first # rest)) \<Rightarrow> field_of first ''text''
      | _ \<Rightarrow> None)))"

text \<open>A turn that the hosted path forwards: its role is user or assistant.\<close>

definition forwarded :: "json \<Rightarrow> bool" where
  "forwarded m =
     (field_of m ''role'' = Some (JStr ''user'') \<or> field_of m ''role'' = Some (JStr ''assistant''))"

text \<open>
  A turn \<open>m\<close> and the backend message \<open>b\<close> made of it:
  \<^verbatim>\<open>{role, content: [{text: content}]}\<close>.
\<close>

definition wraps :: "json \<Rightarrow> json \<Rightarrow> bool" where
  "wraps m b =
     (case (field_of m ''role'', field_of m ''content'') of
        (Some r, Some c) \<Rightarrow>
          b = JObj [(''role'', r), (''content'', JArr [JObj [(''text'', c)]])]
      | _ \<Rightarrow> False)"

section \<open>Stubs for the examples\<close>

text \<open>
  The examples run the handlers against a stubbed world. Raw texts are named by what
  they stand for; the table gives the value each decodes to, the decoder reads the
  table and refuses every other text, the encoder reads it backwards. The stubbed
  backends answer every call with the text \<open>reply\<close>, and a client handle is the
  region it was made for.
\<close>

definition example_texts :: "(string \<times> json) list" where
  "example_texts =
     [(''request: hello'',
       JObj [(''message'', JStr ''hello''), (''conversationHistory'', JArr [])]),
      (''request: ping'',
       JObj [(''message'', JStr ''ping'')]),
      (''request: ping after two turns'',
       JObj [(''message'', JStr ''ping''),
             (''conversationHistory'',
              JArr [turn ''user'' (JStr ''hi''), turn ''assistant'' (JStr ''hello'')])]),
      (''request: null message'',
       JObj [(''message'', JNull)]),
      (''request: no message'',
       JObj [(''conversationHistory'', JArr [])]),
      (''request: after a system turn'',
       JObj [(''message'', JStr ''hello''),
             (''conversationHistory'',
              JArr [turn ''system'' (JStr ''be brief''),
                    turn ''user'' (JStr ''hi''),
                    turn ''assistant'' (JStr ''hey'')])]),
      (''reply: hi there'',
       JObj [(''output'', JObj [(''message'', JObj [(''content'',
         JArr [JObj [(''text'', JStr ''hi there'')]])])])]),
      (''reply: empty content'',
       JObj [(''output'', JObj [(''message'', JObj [(''content'', JArr [])])])]),
      (''reply: pong'',
       JObj [(''generated_text'', JStr ''pong''), (''response_time'', JFloat 0.42)]),
      (''reply: pong without time'',
       JObj [(''generated_text'', JStr ''pong'')])]"

definition example_loads :: "string \<Rightarrow> error + json" where
  "example_loads s =
     (case map_of example_texts s of
        Some v \<Rightarrow> Inr v
      | None \<Rightarrow> Inl (LibraryError ''Expecting value: line 1 column 1 (char 0)''))"

definition example_dumps :: "json \<Rightarrow> string" where
  "example_dumps v =
     (case map_of (map (\<lambda>(s, v). (v, s)) example_texts) v of
        Some s \<Rightarrow> s
      | None \<Rightarrow> ''(the text of another value)'')"

definition stub_env :: "string \<Rightarrow> string env" where
  "stub_env reply =
     \<lparr>MODEL_ID = ''us.amazon.nova-lite-v1:0'',
      FASTAPI_URL = ''http://host:8000/'',
      json_loads = example_loads,
      json_dumps = example_dumps,
      format_value = example_dumps,
      boto3_client = (\<lambda>service region. Inr region),
      invoke_model = (\<lambda>client modelId payload contentType. Inr reply),
      urlopen = (\<lambda>req. Inr reply)\<rparr>"

definition example_event :: "string \<Rightarrow> json" where
  "example_event raw = JObj [(''body'', JStr raw)]"

definition example_context :: lambda_context where
  "example_context =
     \<lparr>invoked_function_arn = ''arn:aws:lambda:eu-west-1:123456789012:function:foo''\<rparr>"

section \<open>Region extraction: what the search finds\<close>

lemma strip_prefix_Some: "strip_prefix p s = Some rest \<Longrightarrow> s = p @ rest"
  by (induction p s rule: strip_prefix.induct) (auto split: if_splits)

lemma strip_prefix_append: "strip_prefix p (p @ rest) = Some rest"
  by (induction p) auto

lemma match_here_Some:
  assumes "match_here s = Some r"
  shows "\<exists>t. s = ''arn:aws:lambda:'' @ r @ '':'' @ t \<and> r \<noteq> [] \<and> CHR '':'' \<notin> set r"
proof -
  from assms obtain rest where sp: "strip_prefix ''arn:aws:lambda:'' s = Some rest"
    and r: "r = takeWhile (\<lambda>c. c \<noteq> CHR '':'') rest"
    and ne: "r \<noteq> []" and after: "dropWhile (\<lambda>c. c \<noteq> CHR '':'') rest \<noteq> []"
    by (auto simp: match_here_def Let_def split: option.splits if_splits)
  from after have hd: "hd (dropWhile (\<lambda>c. c \<noteq> CHR '':'') rest) = CHR '':''"
    using hd_dropWhile [of "\<lambda>c. c \<noteq> CHR '':''" rest] by simp
  with after obtain t where t: "dropWhile (\<lambda>c. c \<noteq> CHR '':'') rest = CHR '':'' # t"
    by (cases "dropWhile (\<lambda>c. c \<noteq> CHR '':'') rest") auto
  have "rest = r @ CHR '':'' # t"
    using takeWhile_dropWhile_id [of "\<lambda>c. c \<noteq> CHR '':''" rest] r t by simp
  moreover have "CHR '':'' \<notin> set r"
    using r set_takeWhileD [of "CHR '':''" "\<lambda>c. c \<noteq> CHR '':''" rest] by auto
  ultimately show ?thesis
    using strip_prefix_Some [OF sp] ne by auto
qed

lemma re_search_Some:
  "re_search s = Some r \<Longrightarrow>
   \<exists>p t. s = p @ ''arn:aws:lambda:'' @ r @ '':'' @ t \<and> r \<noteq> [] \<and> CHR '':'' \<notin> set r"
proof (induction s)
  case Nil
  then show ?case using match_here_Some [of "[]" r] by simp
next
  case (Cons c cs)
  show ?case
  proof (cases "match_here (c # cs)")
    case None
    with Cons.prems have "re_search cs = Some r" by simp
    from Cons.IH [OF this] obtain p t where
      "cs = p @ ''arn:aws:lambda:'' @ r @ '':'' @ t" "r \<noteq> []" "CHR '':'' \<notin> set r" by blast
    then have "c # cs = (c # p) @ ''arn:aws:lambda:'' @ r @ '':'' @ t \<and> r \<noteq> [] \<and> CHR '':'' \<notin> set r"
      by simp
    then show ?thesis by blast
  next
    case (Some r')
    with Cons.prems have "r' = r" by simp
    with Some match_here_Some [of "c # cs" r] show ?thesis
      by (metis append_Nil)
  qed
qed

lemma match_here_found:
  assumes "r \<noteq> []" "CHR '':'' \<notin> set r"
  shows "match_here (''arn:aws:lambda:'' @ r @ '':'' @ t) = Some r"
proof -
  have tw: "takeWhile (\<lambda>c. c \<noteq> CHR '':'') (r @ '':'' @ t) = r"
    using assms(2) by (induction r) auto
  have dw: "dropWhile (\<lambda>c. c \<noteq> CHR '':'') (r @ '':'' @ t) = '':'' @ t"
    using assms(2) by (induction r) auto
  show ?thesis
    unfolding match_here_def strip_prefix_append using assms(1) tw dw by (simp add: Let_def)
qed

lemma re_search_found:
  assumes "r \<noteq> []" "CHR '':'' \<notin> set r"
  shows "re_search (p @ ''arn:aws:lambda:'' @ r @ '':'' @ t) \<noteq> None"
proof (induction p)
  case Nil
  have "re_search (''arn:aws:lambda:'' @ r @ '':'' @ t) = Some r"
    using match_here_found [OF assms, of t] by simp
  then show ?case by simp
next
  case (Cons c p)
  then show ?case by (auto split: option.splits)
qed

text \<open>
  Claim C9. The region-extraction function maps
  \<^verbatim>\<open>arn:aws:lambda:eu-west-1:123456789012:function:foo\<close> to \<^verbatim>\<open>eu-west-1\<close>, and
  every string with no substring \<^verbatim>\<open>arn:aws:lambda:<region>:\<close> (a region being one or
  more characters other than a colon) to the default \<^verbatim>\<open>us-east-1\<close>.
\<close>

theorem extract_region_example_and_default:
  "extract_region_from_arn ''arn:aws:lambda:eu-west-1:123456789012:function:foo'' = ''eu-west-1''
   \<and> ((\<nexists>p r t. arn = p @ ''arn:aws:lambda:'' @ r @ '':'' @ t \<and> r \<noteq> [] \<and> CHR '':'' \<notin> set r)
        \<longrightarrow> extract_region_from_arn arn = ''us-east-1'')"
proof
  show "extract_region_from_arn ''arn:aws:lambda:eu-west-1:123456789012:function:foo'' = ''eu-west-1''"
    by (simp add: extract_region_from_arn_def match_here_def)
next
  show "(\<nexists>p r t. arn = p @ ''arn:aws:lambda:'' @ r @ '':'' @ t \<and> r \<noteq> [] \<and> CHR '':'' \<notin> set r)
        \<longrightarrow> extract_region_from_arn arn = ''us-east-1''"
  proof
    assume no: "\<nexists>p r t. arn = p @ ''arn:aws:lambda:'' @ r @ '':'' @ t \<and> r \<noteq> [] \<and> CHR '':'' \<notin> set r"
    have "re_search arn = None"
    proof (cases "re_search arn")
      case (Some r)
      from re_search_Some [OF this] no show ?thesis by blast
    qed simp
    then show "extract_region_from_arn arn = ''us-east-1''"
      by (simp add: extract_region_from_arn_def)
  qed
qed

theorem extract_region_example_and_default_witness:
  "extract_region_from_arn ''arn:aws:lambda:eu-west-1:123456789012:function:foo'' = ''eu-west-1''
   \<and> extract_region_from_arn ''arn:aws:s3:::b'' = ''us-east-1''"
proof -
  have "False" if "''arn:aws:s3:::b'' = p @ ''arn:aws:lambda:'' @ r @ '':'' @ t" for p r t
    using arg_cong [OF that, of length] by simp
  then have "\<nexists>p r t. ''arn:aws:s3:::b'' = p @ ''arn:aws:lambda:'' @ r @ '':'' @ t
      \<and> r \<noteq> [] \<and> CHR '':'' \<notin> set r"
    by blast
  with extract_region_example_and_default [of "''arn:aws:s3:::b''"] show ?thesis by simp
qed

section \<open>The self-hosted path: what the handler returns and sends\<close>

lemma getitem_field: "getitem x k = Inr v \<longleftrightarrow> field_of x k = Some v"
  by (cases x) (auto simp: field_of_def split: option.splits)


lemma copy_append_list: "py_copy (JArr xs) = Inr (JArr xs)" "py_append (JArr xs) v = Inr (xs @ [v])"
  by (simp_all add: py_copy_def py_append_def)




lemmas value_ops = getitem.simps getitem0.simps get_default.simps get_def contains.simps
  truthy.simps subscripts.simps loads_def py_copy_def py_append_def turn_def field_of_def

lemmas stub_defs = stub_env_def example_event_def example_context_def example_loads_def
  example_texts_def













section \<open>The hosted path: the mapping of the turns\<close>

lemma bedrock_loop_acc:
  assumes "\<forall>m \<in> set msgs. \<exists>r. field_of m ''role'' = Some r
     \<and> (r = JStr ''user'' \<or> r = JStr ''assistant'' \<longrightarrow> field_of m ''content'' \<noteq> None)"
  shows "\<exists>mapped. bedrock_loop acc msgs = Inr (acc @ mapped)
     \<and> list_all2 wraps (filter forwarded msgs) mapped"
  using assms
proof (induction msgs arbitrary: acc)
  case Nil
  then show ?case by simp
next
  case (Cons m msgs)
  from Cons.prems obtain r where r: "field_of m ''role'' = Some r"
    and c: "r = JStr ''user'' \<or> r = JStr ''assistant'' \<longrightarrow> field_of m ''content'' \<noteq> None"
    by auto
  from Cons.prems have rest: "\<forall>m \<in> set msgs. \<exists>r. field_of m ''role'' = Some r
     \<and> (r = JStr ''user'' \<or> r = JStr ''assistant'' \<longrightarrow> field_of m ''content'' \<noteq> None)"
    by simp
  from r have gr: "getitem m ''role'' = Inr r" by (simp add: getitem_field)
  show ?case
  proof (cases "r = JStr ''user'' \<or> r = JStr ''assistant''")
    case False
    from Cons.IH [OF rest, of acc] obtain mapped where
      "bedrock_loop acc msgs = Inr (acc @ mapped)" "list_all2 wraps (filter forwarded msgs) mapped"
      by blast
    moreover have "\<not> forwarded m" using False r by (auto simp: forwarded_def)
    ultimately show ?thesis using False gr by auto
  next
    case True
    with c obtain content where content: "field_of m ''content'' = Some content" by auto
    then have gc: "getitem m ''content'' = Inr content" by (simp add: getitem_field)
    let ?b = "JObj [(''role'', r), (''content'', JArr [JObj [(''text'', content)]])]"
    from Cons.IH [OF rest, of "acc @ [?b]"] obtain mapped where
      l: "bedrock_loop (acc @ [?b]) msgs = Inr ((acc @ [?b]) @ mapped)"
      and w: "list_all2 wraps (filter forwarded msgs) mapped"
      by blast
    have fw: "forwarded m" using True r by (auto simp: forwarded_def)
    have wb: "wraps m ?b" using r content by (simp add: wraps_def)
    from True gr gc l have "bedrock_loop acc (m # msgs) = Inr (acc @ ?b # mapped)"
      by auto
    with fw wb w show ?thesis by auto
  qed
qed

text \<open>
  Claim C2. For a sequence of turns (objects with a role, and with a content when the
  role is user or assistant), the loop of the hosted path ends without an error, and the
  backend message list holds, in order, exactly the turns whose role is user or
  assistant, each as \<^verbatim>\<open>{role, content: [{text: content}]}\<close>; the turns with another
  role are dropped, and their number is the number of turns minus the number of mapped
  messages.
\<close>

theorem bedrock_messages_are_the_forwarded_turns:
  assumes "\<forall>m \<in> set messages. \<exists>r. field_of m ''role'' = Some r
     \<and> (r = JStr ''user'' \<or> r = JStr ''assistant'' \<longrightarrow> field_of m ''content'' \<noteq> None)"
  shows "\<exists>bedrock_messages. bedrock_loop [] messages = Inr bedrock_messages
     \<and> list_all2 wraps (filter forwarded messages) bedrock_messages
     \<and> length (filter (\<lambda>m. \<not> forwarded m) messages) = length messages - length bedrock_messages"
proof -
  from bedrock_loop_acc [OF assms, of "[]"] obtain mapped where
    l: "bedrock_loop [] messages = Inr mapped" and w: "list_all2 wraps (filter forwarded messages) mapped"
    by auto
  from w have "length mapped = length (filter forwarded messages)"
    by (simp add: list_all2_lengthD)
  moreover have "length (filter forwarded messages) + length (filter (\<lambda>m. \<not> forwarded m) messages)
      = length messages"
    by (rule sum_length_filter_compl)
  ultimately have "length (filter (\<lambda>m. \<not> forwarded m) messages) = length messages - length mapped"
    by simp
  with l w show ?thesis by blast
qed

theorem bedrock_messages_are_the_forwarded_turns_witness:
  "bedrock_loop []
     [turn ''system'' (JStr ''be brief''), turn ''user'' (JStr ''hi''),
      turn ''assistant'' (JStr ''hey''), turn ''user'' (JStr ''hello'')] =
     Inr [JObj [(''role'', JStr ''user''), (''content'', JArr [JObj [(''text'', JStr ''hi'')]])],
          JObj [(''role'', JStr ''assistant''), (''content'', JArr [JObj [(''text'', JStr ''hey'')]])],
          JObj [(''role'', JStr ''user''), (''content'', JArr [JObj [(''text'', JStr ''hello'')]])]]
   \<and> length (filter (\<lambda>m. \<not> forwarded m)
       [turn ''system'' (JStr ''be brief''), turn ''user'' (JStr ''hi''),
        turn ''assistant'' (JStr ''hey''), turn ''user'' (JStr ''hello'')]) = 1"
proof -
  let ?msgs = "[turn ''system'' (JStr ''be brief''), turn ''user'' (JStr ''hi''),
      turn ''assistant'' (JStr ''hey''), turn ''user'' (JStr ''hello'')]"
  have turns: "\<forall>m \<in> set ?msgs. \<exists>r. field_of m ''role'' = Some r
     \<and> (r = JStr ''user'' \<or> r = JStr ''assistant'' \<longrightarrow> field_of m ''content'' \<noteq> None)"
    by (simp add: turn_def field_of_def)
  have run: "bedrock_loop [] ?msgs =
     Inr [JObj [(''role'', JStr ''user''), (''content'', JArr [JObj [(''text'', JStr ''hi'')]])],
          JObj [(''role'', JStr ''assistant''), (''content'', JArr [JObj [(''text'', JStr ''hey'')]])],
          JObj [(''role'', JStr ''user''), (''content'', JArr [JObj [(''text'', JStr ''hello'')]])]]"
    by (simp add: turn_def)
  from bedrock_messages_are_the_forwarded_turns [OF turns] run
  have "length (filter (\<lambda>m. \<not> forwarded m) ?msgs) = 1"
    by auto
  with run show ?thesis by (rule conjI)
qed

section \<open>The hosted path: the check of the reply and the response\<close>

lemma quoted_nonempty: "quoted s @ t \<noteq> []" "quoted s \<noteq> []"
  by (simp_all add: quoted_def)

lemma getitem_error: "getitem x k = Inl e \<Longrightarrow> str_error e \<noteq> []"
  by (cases x) (auto simp: quoted_nonempty split: option.splits)

lemma getitem0_error: "getitem0 x = Inl e \<Longrightarrow> str_error e \<noteq> []"
  by (induction x rule: getitem0.induct) (auto simp: quoted_nonempty)

lemma get_error: "get x k = Inl e \<Longrightarrow> str_error e \<noteq> []"
  by (cases x) (auto simp: get_def quoted_nonempty split: option.splits)

lemma subscripts_error: "subscripts x ks = Inl e \<Longrightarrow> str_error e \<noteq> []"
  by (induction ks arbitrary: x) (auto split: sum.splits dest: getitem_error)

lemma assistant_response_error:
  "assistant_response_of response_body = Inl e \<Longrightarrow> str_error e \<noteq> []"
  unfolding assistant_response_of_def
  by (auto split: sum.splits if_splits
      dest: get_error subscripts_error getitem0_error getitem_error)

lemma get_truthy: "get x k = Inr v \<Longrightarrow> truthy v \<Longrightarrow> field_of x k = Some v"
  by (cases x) (auto simp: get_def field_of_def split: option.splits)

lemma field_get: "field_of x k = Some v \<Longrightarrow> get x k = Inr v"
  by (cases x) (auto simp: get_def field_of_def)

lemma field_truthy: "field_of x k = Some v \<Longrightarrow> truthy x"
  by (cases x) (auto simp: field_of_def)

lemma getitem0_text:
  "getitem0 c = Inr f \<Longrightarrow> getitem f ''text'' = Inr a \<Longrightarrow>
   \<exists>rest. c = JArr (f # rest) \<and> field_of f ''text'' = Some a"
  by (induction c rule: getitem0.induct) (auto simp: getitem_field field_of_def)

lemma assistant_response_Inr:
  assumes "assistant_response_of response_body = Inr a"
  shows "reply_text response_body = Some a"
proof -
  from assms obtain out out' msg msg' c c' f where
    1: "get response_body ''output'' = Inr out" "truthy out"
       "subscripts response_body [''output''] = Inr out'"
    and 2: "get out' ''message'' = Inr msg" "truthy msg"
       "subscripts response_body [''output'', ''message''] = Inr msg'"
    and 3: "get msg' ''content'' = Inr c" "truthy c"
       "subscripts response_body [''output'', ''message'', ''content''] = Inr c'"
    and 4: "getitem0 c' = Inr f" "getitem f ''text'' = Inr a"
    unfolding assistant_response_of_def
    by (auto split: sum.splits if_splits)
  from 1 have o: "field_of response_body ''output'' = Some out" "out' = out"
    by (auto simp: getitem_field dest: get_truthy split: sum.splits)
  from 2 o have m: "field_of out ''message'' = Some msg" "msg' = msg"
    by (auto simp: getitem_field dest: get_truthy split: sum.splits)
  from 3 o m have c: "field_of msg ''content'' = Some c" "c' = c"
    by (auto simp: getitem_field dest: get_truthy split: sum.splits)
  from 4 c obtain rest where "c = JArr (f # rest)" "field_of f ''text'' = Some a"
    using getitem0_text by blast
  with o m c show ?thesis by (simp add: reply_text_def)
qed

lemma reply_text_Some:
  assumes "reply_text response_body = Some a"
  shows "assistant_response_of response_body = Inr a"
proof -
  from assms obtain out msg f rest where
    o: "field_of response_body ''output'' = Some out" and
    m: "field_of out ''message'' = Some msg" and
    c: "field_of msg ''content'' = Some (JArr (f # rest))" and
    t: "field_of f ''text'' = Some a"
    by (auto simp: reply_text_def split: option.splits json.splits list.splits)
  have tr: "truthy out" "truthy msg" using m c by (auto dest: field_truthy)
  have g: "getitem response_body ''output'' = Inr out" "getitem out ''message'' = Inr msg"
    "getitem msg ''content'' = Inr (JArr (f # rest))" "getitem f ''text'' = Inr a"
    using o m c t by (simp_all add: getitem_field)
  have e: "get response_body ''output'' = Inr out" "get out ''message'' = Inr msg"
    "get msg ''content'' = Inr (JArr (f # rest))"
    using o m c by (simp_all add: field_get)
  show ?thesis
    by (simp add: assistant_response_of_def tr g e)
qed

lemma reply_text_None:
  assumes "reply_text response_body = None"
  shows "\<exists>e. assistant_response_of response_body = Inl e \<and> str_error e \<noteq> []"
proof (cases "assistant_response_of response_body")
  case (Inl e)
  then show ?thesis using assistant_response_error by blast
next
  case (Inr a)
  from assistant_response_Inr [OF this] assms show ?thesis by simp
qed


lemma prepare_call_list:
  assumes "parse_request env event = Inr (message, JArr h)"
      and "bedrock_loop [] (h @ [turn ''user'' message]) = Inr bedrock_messages"
  shows "prepare_call env event =
     Inr (h @ [turn ''user'' message], json_dumps env (request_payload bedrock_messages))"
  using assms by (simp add: prepare_call_def copy_append_list)


lemma hosted_reply_text:
  assumes "json_loads env raw = Inr response_body" and "reply_text response_body = Some a"
  shows "hosted_reply env messages raw =
     Inr \<lparr>statusCode = 200,
            headers =
              [(''Content-Type'', ''application/json''),
               (''Access-Control-Allow-Origin'', ''*''),
               (''Access-Control-Allow-Headers'',
                ''Content-Type,X-Amz-Date,Authorization,X-Api-Key,X-Amz-Security-Token''),
               (''Access-Control-Allow-Methods'', ''OPTIONS,POST'')],
            body = json_dumps env (JObj
              [(''success'', JBool True),
               (''response'', a),
               (''conversationHistory'', JArr (messages @ [turn ''assistant'' a]))])\<rparr>"
  using assms by (simp add: hosted_reply_def reply_text_Some)

lemma hosted_reply_invalid:
  assumes "json_loads env raw = Inr response_body" and "reply_text response_body = None"
  shows "\<exists>e. hosted_reply env messages raw = Inl e \<and> str_error e \<noteq> []"
  using assms reply_text_None [OF assms(2)] by (auto simp: hosted_reply_def)

lemma hosted_response:
  "h_response (lambda_handler env bedrock_client event context) =
     (case fst (lambda_handler_try env bedrock_client event context) of
        Inr r \<Rightarrow> r
      | Inl e \<Rightarrow>
          \<lparr>statusCode = 500,
           headers =
             [(''Content-Type'', ''application/json''),
              (''Access-Control-Allow-Origin'', ''*''),
              (''Access-Control-Allow-Headers'',
               ''Content-Type,X-Amz-Date,Authorization,X-Api-Key,X-Amz-Security-Token''),
              (''Access-Control-Allow-Methods'', ''OPTIONS,POST'')],
           body = json_dumps env (JObj
             [(''success'', JBool False),
              (''error'', JStr (str_error e))])\<rparr>)"
  by (auto simp: lambda_handler_def split: sum.splits prod.splits)

lemma hosted_calls:
  "h_calls (lambda_handler env bedrock_client event context) =
     snd (snd (lambda_handler_try env bedrock_client event context))"
  by (auto simp: lambda_handler_def split: sum.splits prod.splits)

lemma hosted_try_reached:
  assumes "acquire_client env bedrock_client context = Inr c"
      and "authenticated_user event = Inr ()"
      and "prepare_call env event = Inr (messages, payload)"
  shows "lambda_handler_try env bedrock_client event context =
     ((case invoke_model env c (MODEL_ID env) payload ''application/json'' of
         Inl e \<Rightarrow> Inl e
       | Inr raw \<Rightarrow> hosted_reply env messages raw),
      Some c,
      [\<lparr>inv_client = c, inv_modelId = MODEL_ID env, inv_body = payload,
        inv_contentType = ''application/json''\<rparr>])"
  using assms by (simp add: lambda_handler_try_def)

lemma hosted_try_called:
  assumes "snd (snd (lambda_handler_try env bedrock_client event context)) = [call]"
  shows "\<exists>c messages payload.
       acquire_client env bedrock_client context = Inr c
     \<and> authenticated_user event = Inr ()
     \<and> prepare_call env event = Inr (messages, payload)
     \<and> call = \<lparr>inv_client = c, inv_modelId = MODEL_ID env, inv_body = payload,
               inv_contentType = ''application/json''\<rparr>"
  using assms unfolding lambda_handler_try_def
  by (auto split: sum.splits prod.splits)



lemma stub_acquire:
  "acquire_client (stub_env reply) None example_context = Inr ''eu-west-1''"
  by (simp add: acquire_client_def stub_env_def example_context_def
      extract_region_from_arn_def match_here_def)

lemma stub_user: "authenticated_user (example_event raw) = Inr ()"
  by (simp add: authenticated_user_def example_event_def)

lemma stub_parse_hello:
  "parse_request (stub_env reply) (example_event ''request: hello'') = Inr (JStr ''hello'', JArr [])"
  by (simp add: parse_request_def value_ops stub_defs)


lemma stub_invoke: "invoke_model (stub_env reply) c modelId payload contentType = Inr reply"
  by (simp add: stub_env_def)

lemma stub_loads_hi_there:
  "json_loads (stub_env reply) ''reply: hi there'' =
     Inr (JObj [(''output'', JObj [(''message'', JObj [(''content'',
       JArr [JObj [(''text'', JStr ''hi there'')]])])])])"
  by (simp add: stub_defs)

lemma stub_loads_empty:
  "json_loads (stub_env reply) ''reply: empty content'' =
     Inr (JObj [(''output'', JObj [(''message'', JObj [(''content'', JArr [])])])])"
  by (simp add: stub_defs)

text \<open>
  Claim C1. On the hosted path, the history \<^verbatim>\<open>[]\<close>, the message
  \<^verbatim>\<open>hello\<close> and a backend whose answer decodes to
  \<^verbatim>\<open>{output:{message:{content:[{text:"hi there"}]}}}\<close> give statusCode 200 and the
  body with success true, the response \<^verbatim>\<open>hi there\<close> and the history of the user's
  turn followed by the assistant's turn. The client is at hand and the reading of the
  authenticated user does not raise.
\<close>

theorem hosted_round_trip:
  assumes "acquire_client env bedrock_client context = Inr c"
      and "authenticated_user event = Inr ()"
      and "parse_request env event = Inr (JStr ''hello'', JArr [])"
      and "\<And>modelId payload contentType.
             invoke_model env c modelId payload contentType = Inr raw"
      and "json_loads env raw =
             Inr (JObj [(''output'', JObj [(''message'', JObj [(''content'',
               JArr [JObj [(''text'', JStr ''hi there'')]])])])])"
  shows "h_response (lambda_handler env bedrock_client event context) =
     \<lparr>statusCode = 200,
      headers =
        [(''Content-Type'', ''application/json''),
         (''Access-Control-Allow-Origin'', ''*''),
         (''Access-Control-Allow-Headers'',
          ''Content-Type,X-Amz-Date,Authorization,X-Api-Key,X-Amz-Security-Token''),
         (''Access-Control-Allow-Methods'', ''OPTIONS,POST'')],
      body = json_dumps env (JObj
        [(''success'', JBool True),
         (''response'', JStr ''hi there''),
         (''conversationHistory'',
          JArr [JObj [(''role'', JStr ''user''), (''content'', JStr ''hello'')],
                JObj [(''role'', JStr ''assistant''), (''content'', JStr ''hi there'')]])])\<rparr>"
proof -
  have loop: "bedrock_loop [] ([] @ [turn ''user'' (JStr ''hello'')]) =
      Inr [JObj [(''role'', JStr ''user''), (''content'', JArr [JObj [(''text'', JStr ''hello'')]])]]"
    by (simp add: turn_def)
  note prepared = prepare_call_list [OF assms(3) loop]
  have reply: "reply_text (JObj [(''output'', JObj [(''message'', JObj [(''content'',
               JArr [JObj [(''text'', JStr ''hi there'')]])])])]) = Some (JStr ''hi there'')"
    by (simp add: reply_text_def field_of_def)
  show ?thesis
    by (simp add: hosted_response hosted_try_reached [OF assms(1,2) prepared] assms(4)
        hosted_reply_text [OF assms(5) reply] turn_def)
qed

theorem hosted_round_trip_witness:
  "h_response (lambda_handler (stub_env ''reply: hi there'') None
       (example_event ''request: hello'') example_context) =
     \<lparr>statusCode = 200,
      headers =
        [(''Content-Type'', ''application/json''),
         (''Access-Control-Allow-Origin'', ''*''),
         (''Access-Control-Allow-Headers'',
          ''Content-Type,X-Amz-Date,Authorization,X-Api-Key,X-Amz-Security-Token''),
         (''Access-Control-Allow-Methods'', ''OPTIONS,POST'')],
      body = json_dumps (stub_env ''reply: hi there'') (JObj
        [(''success'', JBool True),
         (''response'', JStr ''hi there''),
         (''conversationHistory'',
          JArr [JObj [(''role'', JStr ''user''), (''content'', JStr ''hello'')],
                JObj [(''role'', JStr ''assistant''), (''content'', JStr ''hi there'')]])])\<rparr>"
  by (rule hosted_round_trip [OF stub_acquire stub_user stub_parse_hello stub_invoke
        stub_loads_hi_there])



section \<open>Failures and the response envelope\<close>

text \<open>
  Claim C5. When the hosted backend has been called and its answer decodes to a value
  without a reply text (no output, no message in the output, no non-empty content list in
  the message, or no text field in the first content element), \<^verbatim>\<open>lambda_handler\<close>
  returns statusCode 500 with success false and an error string that is not empty.
\<close>

theorem hosted_invalid_reply_fails:
  assumes "h_calls (lambda_handler env bedrock_client event context) = [call]"
      and "invoke_model env (inv_client call) (inv_modelId call) (inv_body call)
             (inv_contentType call) = Inr raw"
      and "json_loads env raw = Inr response_body"
      and "reply_text response_body = None"
  shows "\<exists>message. message \<noteq> []
     \<and> h_response (lambda_handler env bedrock_client event context) =
         \<lparr>statusCode = 500,
          headers =
            [(''Content-Type'', ''application/json''),
             (''Access-Control-Allow-Origin'', ''*''),
             (''Access-Control-Allow-Headers'',
              ''Content-Type,X-Amz-Date,Authorization,X-Api-Key,X-Amz-Security-Token''),
             (''Access-Control-Allow-Methods'', ''OPTIONS,POST'')],
          body = json_dumps env (JObj
            [(''success'', JBool False),
             (''error'', JStr message)])\<rparr>"
proof -
  from assms(1) have "snd (snd (lambda_handler_try env bedrock_client event context)) = [call]"
    by (simp add: hosted_calls)
  from hosted_try_called [OF this] obtain c messages payload where
    ac: "acquire_client env bedrock_client context = Inr c" and
    au: "authenticated_user event = Inr ()" and
    pc: "prepare_call env event = Inr (messages, payload)" and
    call: "call = \<lparr>inv_client = c, inv_modelId = MODEL_ID env, inv_body = payload,
               inv_contentType = ''application/json''\<rparr>"
    by blast
  from assms(2) call have iv: "invoke_model env c (MODEL_ID env) payload ''application/json'' = Inr raw"
    by simp
  from hosted_reply_invalid [OF assms(3,4), of messages] obtain e where
    e: "hosted_reply env messages raw = Inl e" "str_error e \<noteq> []"
    by blast
  have "h_response (lambda_handler env bedrock_client event context) =
         \<lparr>statusCode = 500,
          headers =
            [(''Content-Type'', ''application/json''),
             (''Access-Control-Allow-Origin'', ''*''),
             (''Access-Control-Allow-Headers'',
              ''Content-Type,X-Amz-Date,Authorization,X-Api-Key,X-Amz-Security-Token''),
             (''Access-Control-Allow-Methods'', ''OPTIONS,POST'')],
          body = json_dumps env (JObj
            [(''success'', JBool False),
             (''error'', JStr (str_error e))])\<rparr>"
    by (simp add: hosted_response hosted_try_reached [OF ac au pc] iv e(1))
  with e(2) show ?thesis by blast
qed

theorem hosted_invalid_reply_fails_witness:
  "(\<exists>message. message \<noteq> []
     \<and> h_response (lambda_handler (stub_env ''reply: empty content'') None
         (example_event ''request: hello'') example_context) =
         \<lparr>statusCode = 500,
          headers =
            [(''Content-Type'', ''application/json''),
             (''Access-Control-Allow-Origin'', ''*''),
             (''Access-Control-Allow-Headers'',
              ''Content-Type,X-Amz-Date,Authorization,X-Api-Key,X-Amz-Security-Token''),
             (''Access-Control-Allow-Methods'', ''OPTIONS,POST'')],
          body = json_dumps (stub_env ''reply: empty content'') (JObj
            [(''success'', JBool False),
             (''error'', JStr message)])\<rparr>)
   \<and> reply_text (JObj [(''output'', JObj [(''message'', JObj [(''content'', JArr [])])])]) = None"
proof -
  let ?env = "stub_env ''reply: empty content''"
  let ?event = "example_event ''request: hello''"
  have loop: "bedrock_loop [] ([] @ [turn ''user'' (JStr ''hello'')]) =
      Inr [JObj [(''role'', JStr ''user''), (''content'', JArr [JObj [(''text'', JStr ''hello'')]])]]"
    by (simp add: turn_def)
  note prepared = prepare_call_list [OF stub_parse_hello loop]
  have calls: "h_calls (lambda_handler ?env None ?event example_context) =
      [\<lparr>inv_client = ''eu-west-1'', inv_modelId = MODEL_ID ?env,
        inv_body = json_dumps ?env (request_payload
          [JObj [(''role'', JStr ''user''), (''content'', JArr [JObj [(''text'', JStr ''hello'')]])]]),
        inv_contentType = ''application/json''\<rparr>]"
    by (simp add: hosted_calls hosted_try_reached [OF stub_acquire stub_user prepared])
  have none: "reply_text (JObj [(''output'', JObj [(''message'', JObj [(''content'', JArr [])])])])
      = None"
    by (simp add: reply_text_def field_of_def)
  from hosted_invalid_reply_fails [OF calls stub_invoke stub_loads_empty none] none
  show ?thesis by (rule conjI)
qed














end
